theory Spec2Isabelle
  imports Complex_Main
begin

section \<open>DX-Ball: the simulation core of \<^verbatim>\<open>21201172.cpp\<close>\<close>

text \<open>
  The program keeps its whole state in global variables. The model gathers them in one
  record \<open>Game\<close> that every function takes and returns.

  Modelling conventions.
  \<^item> \<^verbatim>\<open>int\<close> variables (score, lives, level, hit counts) are \<open>int\<close>. Signed
    overflow is undefined behaviour in C++ and is not modelled: the counters move by at
    most 10 per event and start near 0.
  \<^item> \<^verbatim>\<open>float\<close> and \<^verbatim>\<open>double\<close> quantities are exact reals, and
    \<^verbatim>\<open>sqrtf\<close>, \<^verbatim>\<open>cosf\<close> and \<^verbatim>\<open>sinf\<close> the real functions. An equality
    between such quantities below is exact in this reading; nothing is stated about
    rounding.
  \<^item> \<^verbatim>\<open>rand()\<close> reads the head of a stream \<open>rands\<close> of naturals kept in the state
    and drops it, so that every outcome of the random source is a value of the model.
  \<^item> The two score files are part of the state. A file that cannot be opened for
    reading is \<open>None\<close>; \<open>filesWritable\<close> tells whether an output stream opens
    (the source tests \<^verbatim>\<open>if (ofs)\<close> before it writes).
  \<^item> \<^verbatim>\<open>glutGet(GLUT_ELAPSED_TIME)\<close> is the argument \<open>now\<close> of the functions
    that read the clock.
\<close>

subsection \<open>Constants\<close>

definition WIN_W :: int where "WIN_W = 800"
definition WIN_H :: int where "WIN_H = 600"
definition MAX_RECENT :: int where "MAX_RECENT = 5"
definition FIRE_RATE :: real where "FIRE_RATE = 0.3"
definition PERK_DROP_PROB :: real where "PERK_DROP_PROB = 0.25"
definition BALL_SPEED_MAX :: real where "BALL_SPEED_MAX = 900"
definition BALL_SPEED_INCREASE_RATE :: real where "BALL_SPEED_INCREASE_RATE = 5"

text \<open>
  From the platform headers, which are not part of the repository: \<^verbatim>\<open>RAND_MAX\<close> of
  the MinGW runtime the build command names, and the GLUT codes of \<^verbatim>\<open>GL/glut.h\<close>.
\<close>

definition RAND_MAX :: nat where "RAND_MAX = 32767"
definition GLUT_LEFT_BUTTON :: int where "GLUT_LEFT_BUTTON = 0"
definition GLUT_DOWN :: int where "GLUT_DOWN = 0"
definition GLUT_KEY_LEFT :: int where "GLUT_KEY_LEFT = 100"
definition GLUT_KEY_RIGHT :: int where "GLUT_KEY_RIGHT = 102"

subsection \<open>Entities and the global state\<close>

datatype GameState =
  GS_MENU | GS_PLAYING | GS_PAUSED | GS_LEVEL_CLEAR | GS_GAMEOVER | GS_HELP
  | GS_SCOREBOARD | GS_MUSIC_MENU

record Ball =
  ball_x :: real
  ball_y :: real
  ball_vx :: real
  ball_vy :: real
  ball_radius :: real
  ball_speed :: real
  ball_stuck :: bool
  ball_isFireball :: bool
  ball_fireballTimer :: real

record Paddle =
  paddle_x :: real
  paddle_y :: real
  paddle_w :: real
  paddle_h :: real
  paddle_speed :: real

record Brick =
  brick_x :: real
  brick_y :: real
  brick_w :: real
  brick_h :: real
  brick_hits :: int
  brick_alive :: bool
  brick_type :: int

record Perk =
  perk_x :: real
  perk_y :: real
  perk_vy :: real
  perk_type :: int
  perk_alive :: bool

record Projectile =
  proj_x :: real
  proj_y :: real
  proj_vy :: real
  proj_alive :: bool

record Game =
  gameState :: GameState
  currentLevel :: int
  ball :: Ball
  paddle :: Paddle
  bricks :: "Brick list"
  perks :: "Perk list"
  projectiles :: "Projectile list"
  score :: int
  lives :: int
  highScore :: int
  bricksRemaining :: int
  gameStartTime :: real
  elapsedTime :: real
  fireCooldown :: real
  keyLeft :: bool
  keyRight :: bool
  musicPlaying :: bool
  rands :: "nat \<Rightarrow> nat"
  scoreFile :: "int list option"
  highScoreFile :: "int option"
  filesWritable :: bool
  musicFileExists :: bool

text \<open>\<^verbatim>\<open>rand()\<close>: the next number of the stream.\<close>

definition rand :: "Game \<Rightarrow> nat \<times> Game" where
  "rand s = (rands s 0, s\<lparr>rands := (\<lambda>n. rands s (Suc n))\<rparr>)"

subsection \<open>Score persistence (part 10 of the source)\<close>

definition loadRecentScores :: "Game \<Rightarrow> int list" where
  "loadRecentScores s = (case scoreFile s of None \<Rightarrow> [] | Some v \<Rightarrow> v)"

definition saveScore :: "int \<Rightarrow> Game \<Rightarrow> Game" where
  "saveScore v s =
     (let scores = v # loadRecentScores s;
          scores' = (if int (length scores) > MAX_RECENT then take (nat MAX_RECENT) scores
                     else scores)
      in if filesWritable s then s\<lparr>scoreFile := Some scores'\<rparr> else s)"

definition saveHighScore :: "int \<Rightarrow> Game \<Rightarrow> Game" where
  "saveHighScore newScore s =
     (if newScore > highScore s
      then (let s1 = s\<lparr>highScore := newScore\<rparr>
            in if filesWritable s1 then s1\<lparr>highScoreFile := Some (highScore s1)\<rparr> else s1)
      else s)"

definition loadHighScore :: "Game \<Rightarrow> int" where
  "loadHighScore s = (case highScoreFile s of None \<Rightarrow> 0 | Some hs \<Rightarrow> hs)"

subsection \<open>Initialisation and level creation (part 6)\<close>

definition resetPaddleAndBall :: "Game \<Rightarrow> Game" where
  "resetPaddleAndBall s =
     (let pw = 120;
          px = (real_of_int WIN_W - pw) / 2;
          pd = \<lparr>paddle_x = px, paddle_y = 50, paddle_w = pw, paddle_h = 16,
                paddle_speed = 600\<rparr>;
          radius = 8;
          bl = \<lparr>ball_x = paddle_x pd + paddle_w pd / 2,
                ball_y = paddle_y pd + paddle_h pd + radius + 1,
                ball_vx = 0, ball_vy = 0, ball_radius = radius, ball_speed = 380,
                ball_stuck = True, ball_isFireball = False, ball_fireballTimer = 0\<rparr>
      in s\<lparr>paddle := pd, ball := bl\<rparr>)"

text \<open>
  The two draws of one brick in \<^verbatim>\<open>createBricksForLevel\<close>: the hit count from
  \<^verbatim>\<open>rand()%100\<close>, the type from \<^verbatim>\<open>rand()/(RAND_MAX+1.0f)\<close>.
\<close>

definition brickHits :: "int \<Rightarrow> nat \<Rightarrow> int" where
  "brickHits level r = (if int (r mod 100) < max 0 (level - 1) * 15 then 2 else 1)"

definition brickType :: "int \<Rightarrow> nat \<Rightarrow> int" where
  "brickType level r =
     (if real r / (real RAND_MAX + 1) < PERK_DROP_PROB + 0.02 * real_of_int (level - 1)
      then 1 else 0)"

text \<open>The body of the inner loop, for row \<open>r\<close> and column \<open>c\<close>.\<close>

definition makeBrick :: "int \<Rightarrow> nat \<Rightarrow> nat \<Rightarrow> Game \<Rightarrow> Game" where
  "makeBrick level r c s =
     (let cols = 10 :: int; margin = 60 :: real; gap = 6 :: real;
          brickW = (real_of_int WIN_W - 2 * margin - real_of_int (cols - 1) * gap)
                     / real_of_int cols;
          brickH = 22 :: real;
          startY = real_of_int WIN_H - 100;
          (h, s1) = rand s;
          (t, s2) = rand s1;
          b = \<lparr>brick_x = margin + real c * (brickW + gap),
               brick_y = startY - real r * (brickH + gap),
               brick_w = brickW, brick_h = brickH,
               brick_hits = brickHits level h, brick_alive = True,
               brick_type = brickType level t\<rparr>
      in s2\<lparr>bricks := bricks s2 @ [b], bricksRemaining := bricksRemaining s2 + 1\<rparr>)"

definition createBricksForLevel :: "int \<Rightarrow> Game \<Rightarrow> Game" where
  "createBricksForLevel level s =
     (let s0 = s\<lparr>bricks := [], perks := [], projectiles := [], bricksRemaining := 0\<rparr>;
          rows = min (3 + level) 8;
          s1 = foldl (\<lambda>a r. foldl (\<lambda>a' c. makeBrick level r c a') a [0..<10])
                 s0 [0..<nat rows];
          sp = 380 + real_of_int (level - 1) * 30;
          sp' = (if sp > BALL_SPEED_MAX then BALL_SPEED_MAX else sp)
      in s1\<lparr>ball := (ball s1)\<lparr>ball_speed := sp'\<rparr>\<rparr>)"

definition startNewGame :: "real \<Rightarrow> Game \<Rightarrow> Game" where
  "startNewGame now s =
     (let s1 = s\<lparr>currentLevel := 1, score := 0, lives := 3\<rparr>;
          s2 = resetPaddleAndBall (createBricksForLevel (currentLevel s1) s1)
      in s2\<lparr>gameStartTime := now, elapsedTime := 0, gameState := GS_PLAYING\<rparr>)"

definition startLevel :: "real \<Rightarrow> int \<Rightarrow> Game \<Rightarrow> Game" where
  "startLevel now level s =
     (let s2 = resetPaddleAndBall (createBricksForLevel level s)
      in s2\<lparr>gameStartTime := now, elapsedTime := 0, gameState := GS_PLAYING\<rparr>)"

subsection \<open>Perks (part 7)\<close>

definition spawnPerk :: "real \<Rightarrow> real \<Rightarrow> Game \<Rightarrow> Game" where
  "spawnPerk x y s =
     (let (r, s1) = rand s;
          t = int (r mod 100);
          ty = (if t < 35 then 0 else if t < 65 then 1 else if t < 80 then 2
                else if t < 90 then 3 else if t < 97 then 4 else 5);
          p = \<lparr>perk_x = x, perk_y = y, perk_vy = - 150, perk_type = ty, perk_alive = True\<rparr>
      in s1\<lparr>perks := perks s1 @ [p]\<rparr>)"

text \<open>
  \<^verbatim>\<open>applyPerk\<close> takes the perk by reference and clears its \<^verbatim>\<open>alive\<close> flag; the
  model returns the perk with the state.
\<close>

definition applyPerk :: "Perk \<Rightarrow> Game \<Rightarrow> Perk \<times> Game" where
  "applyPerk p s =
     (let s' =
        (if perk_type p = 0 then s\<lparr>lives := lives s + 1\<rparr>
         else if perk_type p = 1 then
           (let w = paddle_w (paddle s) + 40
            in s\<lparr>paddle := (paddle s)\<lparr>paddle_w := (if w > 280 then 280 else w)\<rparr>\<rparr>)
         else if perk_type p = 2 then
           (let v = ball_speed (ball s) * 1.15
            in s\<lparr>ball := (ball s)\<lparr>ball_speed :=
                   (if v > BALL_SPEED_MAX then BALL_SPEED_MAX else v)\<rparr>\<rparr>)
         else if perk_type p = 3 then
           s\<lparr>ball := (ball s)\<lparr>ball_isFireball := True, ball_fireballTimer := 10\<rparr>\<rparr>
         else if perk_type p = 4 then
           (let w = paddle_w (paddle s) - 30
            in s\<lparr>paddle := (paddle s)\<lparr>paddle_w := (if w < 40 then 40 else w)\<rparr>\<rparr>)
         else if perk_type p = 5 then
           (let s1 = s\<lparr>lives := lives s - 1\<rparr>
            in if lives s1 \<le> 0
               then (saveHighScore (score s1) (saveScore (score s1) s1))
                      \<lparr>gameState := GS_GAMEOVER\<rparr>
               else resetPaddleAndBall s1)
         else s)
      in (p\<lparr>perk_alive := False\<rparr>, s'))"

subsection \<open>Ball physics and collisions (part 8)\<close>

definition launchBall :: "Game \<Rightarrow> Game" where
  "launchBall s =
     (if \<not> ball_stuck (ball s) then s
      else (let (r, s1) = rand s;
                angle = pi / 3 + real_of_int (int (r mod 100) - 50) * 0.004;
                b = ball s1
            in s1\<lparr>ball := b\<lparr>ball_stuck := False,
                                ball_vx := ball_speed b * cos angle,
                                ball_vy := ball_speed b * sin angle\<rparr>\<rparr>))"

definition normalizeBallVelocity :: "Game \<Rightarrow> Game" where
  "normalizeBallVelocity s =
     (let b = ball s;
          vmag = sqrt (ball_vx b * ball_vx b + ball_vy b * ball_vy b)
      in if vmag > 0.0001
         then s\<lparr>ball := b\<lparr>ball_vx := ball_vx b * (ball_speed b / vmag),
                             ball_vy := ball_vy b * (ball_speed b / vmag)\<rparr>\<rparr>
         else s)"

definition bounceBallOffPaddle :: "Game \<Rightarrow> Game" where
  "bounceBallOffPaddle s =
     (let b = ball s; p = paddle s;
          rel = (ball_x b - (paddle_x p + paddle_w p * 0.5)) / (paddle_w p * 0.5);
          angle = pi / 2 + rel * (75 * pi / 180)
      in s\<lparr>ball := b\<lparr>ball_y := paddle_y p + paddle_h p + ball_radius b + 1,
                          ball_vx := ball_speed b * cos angle,
                          ball_vy := ball_speed b * sin angle\<rparr>\<rparr>)"

definition handleWallCollisions :: "Game \<Rightarrow> Game" where
  "handleWallCollisions s =
     (let b0 = ball s;
          b1 = (if ball_x b0 - ball_radius b0 \<le> 0
                then b0\<lparr>ball_x := ball_radius b0, ball_vx := - ball_vx b0\<rparr> else b0);
          b2 = (if ball_x b1 + ball_radius b1 \<ge> real_of_int WIN_W
                then b1\<lparr>ball_x := real_of_int WIN_W - ball_radius b1, ball_vx := - ball_vx b1\<rparr>
                else b1);
          b3 = (if ball_y b2 + ball_radius b2 \<ge> real_of_int WIN_H
                then b2\<lparr>ball_y := real_of_int WIN_H - ball_radius b2, ball_vy := - ball_vy b2\<rparr>
                else b2)
      in s\<lparr>ball := b3\<rparr>)"

definition handlePaddleCollision :: "Game \<Rightarrow> Game" where
  "handlePaddleCollision s =
     (let b = ball s; p = paddle s
      in if ball_vy b < 0 \<and> ball_x b + ball_radius b > paddle_x p
            \<and> ball_x b - ball_radius b < paddle_x p + paddle_w p
            \<and> ball_y b - ball_radius b < paddle_y p + paddle_h p
            \<and> ball_y b + ball_radius b > paddle_y p
         then bounceBallOffPaddle s else s)"

text \<open>The bounding-box test of \<^verbatim>\<open>handleBrickCollisions\<close> (line 268).\<close>

definition overlaps :: "Ball \<Rightarrow> Brick \<Rightarrow> bool" where
  "overlaps bl b \<longleftrightarrow>
     ball_x bl + ball_radius bl > brick_x b \<and> ball_x bl - ball_radius bl < brick_x b + brick_w b
     \<and> ball_y bl + ball_radius bl > brick_y b \<and> ball_y bl - ball_radius bl < brick_y b + brick_h b"

text \<open>
  The source repeats two blocks in \<^verbatim>\<open>handleBrickCollisions\<close> and
  \<^verbatim>\<open>handleProjectiles\<close>. \<open>destroyBrick\<close> is
  \<^verbatim>\<open>b.alive = false; bricksRemaining--; score += 10; if (b.type==1) spawnPerk(...)\<close>;
  \<open>damageBrick\<close> is \<^verbatim>\<open>b.hits--; if (b.hits <= 0) { ... } else score += 5;\<close>.
\<close>

definition destroyBrick :: "Brick \<Rightarrow> Game \<Rightarrow> Brick \<times> Game" where
  "destroyBrick b s =
     (let b' = b\<lparr>brick_alive := False\<rparr>;
          s1 = s\<lparr>bricksRemaining := bricksRemaining s - 1, score := score s + 10\<rparr>
      in (b', if brick_type b' = 1
              then spawnPerk (brick_x b' + brick_w b' / 2) (brick_y b' + brick_h b' / 2) s1
              else s1))"

definition damageBrick :: "Brick \<Rightarrow> Game \<Rightarrow> Brick \<times> Game" where
  "damageBrick b s =
     (let b' = b\<lparr>brick_hits := brick_hits b - 1\<rparr>
      in if brick_hits b' \<le> 0 then destroyBrick b' s
         else (b', s\<lparr>score := score s + 5\<rparr>))"

text \<open>The non-fireball branch before the hit count: the reflection (lines 273-276).\<close>

definition reflectBall :: "Brick \<Rightarrow> Game \<Rightarrow> Game" where
  "reflectBall b s =
     (let bl = ball s;
          overlapX = (brick_w b / 2 + ball_radius bl) - \<bar>ball_x bl - (brick_x b + brick_w b / 2)\<bar>;
          overlapY = (brick_h b / 2 + ball_radius bl) - \<bar>ball_y bl - (brick_y b + brick_h b / 2)\<bar>
      in if overlapX < overlapY then s\<lparr>ball := bl\<lparr>ball_vx := - ball_vx bl\<rparr>\<rparr>
         else s\<lparr>ball := bl\<lparr>ball_vy := - ball_vy bl\<rparr>\<rparr>)"

text \<open>
  The loop over \<^verbatim>\<open>bricks\<close>. It returns the bricks as the loop leaves them, with the
  state; the \<^verbatim>\<open>break\<close> of the non-fireball branch returns the rest of the list as it
  is. The fireball branch has no \<^verbatim>\<open>break\<close>: the loop goes on.
\<close>

fun handleBrickCollisions_loop :: "Brick list \<Rightarrow> Game \<Rightarrow> Brick list \<times> Game" where
  "handleBrickCollisions_loop [] s = ([], s)"
| "handleBrickCollisions_loop (b # bs) s =
     (if \<not> brick_alive b then apfst ((#) b) (handleBrickCollisions_loop bs s)
      else if overlaps (ball s) b then
        (if ball_isFireball (ball s)
         then (case destroyBrick b s of
                 (b', s') \<Rightarrow> apfst ((#) b') (handleBrickCollisions_loop bs s'))
         else (case damageBrick b (reflectBall b s) of
                 (b', s') \<Rightarrow> (b' # bs, s')))
      else apfst ((#) b) (handleBrickCollisions_loop bs s))"

definition handleBrickCollisions :: "Game \<Rightarrow> Game" where
  "handleBrickCollisions s =
     (case handleBrickCollisions_loop (bricks s) s of (bs, s') \<Rightarrow> s'\<lparr>bricks := bs\<rparr>)"

fun handlePerks_loop :: "real \<Rightarrow> Perk list \<Rightarrow> Game \<Rightarrow> Perk list \<times> Game" where
  "handlePerks_loop dt [] s = ([], s)"
| "handlePerks_loop dt (p # ps) s =
     (if \<not> perk_alive p then apfst ((#) p) (handlePerks_loop dt ps s)
      else (let p1 = p\<lparr>perk_y := perk_y p + perk_vy p * dt\<rparr>;
                p2 = (if perk_y p1 < - 40 then p1\<lparr>perk_alive := False\<rparr> else p1);
                pd = paddle s
            in if perk_x p2 > paddle_x pd \<and> perk_x p2 < paddle_x pd + paddle_w pd
                  \<and> perk_y p2 < paddle_y pd + paddle_h pd \<and> perk_y p2 > paddle_y pd
               then (case applyPerk p2 s of
                       (p3, s') \<Rightarrow> apfst ((#) p3) (handlePerks_loop dt ps s'))
               else apfst ((#) p2) (handlePerks_loop dt ps s)))"

definition handlePerks :: "real \<Rightarrow> Game \<Rightarrow> Game" where
  "handlePerks dt s =
     (case handlePerks_loop dt (perks s) s of (ps, s') \<Rightarrow> s'\<lparr>perks := ps\<rparr>)"

text \<open>The inner loop of \<^verbatim>\<open>handleProjectiles\<close>: the first brick the projectile is in.\<close>

fun projectileHit :: "Projectile \<Rightarrow> Brick list \<Rightarrow> Game \<Rightarrow> Projectile \<times> Brick list \<times> Game" where
  "projectileHit p [] s = (p, [], s)"
| "projectileHit p (b # bs) s =
     (if brick_alive b \<and> proj_x p > brick_x b \<and> proj_x p < brick_x b + brick_w b
         \<and> proj_y p > brick_y b \<and> proj_y p < brick_y b + brick_h b
      then (case damageBrick b s of (b', s') \<Rightarrow> (p\<lparr>proj_alive := False\<rparr>, b' # bs, s'))
      else (case projectileHit p bs s of (p', bs', s') \<Rightarrow> (p', b # bs', s')))"

fun handleProjectiles_loop :: "real \<Rightarrow> Projectile list \<Rightarrow> Game \<Rightarrow> Projectile list \<times> Game" where
  "handleProjectiles_loop dt [] s = ([], s)"
| "handleProjectiles_loop dt (p # ps) s =
     (if \<not> proj_alive p then apfst ((#) p) (handleProjectiles_loop dt ps s)
      else (let p1 = p\<lparr>proj_y := proj_y p + proj_vy p * dt\<rparr>;
                p2 = (if proj_y p1 > real_of_int WIN_H then p1\<lparr>proj_alive := False\<rparr> else p1)
            in case projectileHit p2 (bricks s) s of
                 (p3, bs, s') \<Rightarrow>
                   apfst ((#) p3) (handleProjectiles_loop dt ps (s'\<lparr>bricks := bs\<rparr>))))"

definition handleProjectiles :: "real \<Rightarrow> Game \<Rightarrow> Game" where
  "handleProjectiles dt s =
     (case handleProjectiles_loop dt (projectiles s) s of
        (ps, s') \<Rightarrow> s'\<lparr>projectiles := ps\<rparr>)"

subsection \<open>The update loop (part 9)\<close>

definition increaseBallSpeedOverTime :: "real \<Rightarrow> Game \<Rightarrow> Game" where
  "increaseBallSpeedOverTime dt s =
     (if \<not> ball_stuck (ball s)
      then (let v = ball_speed (ball s) + BALL_SPEED_INCREASE_RATE * dt;
                v' = (if v > BALL_SPEED_MAX then BALL_SPEED_MAX else v)
            in normalizeBallVelocity (s\<lparr>ball := (ball s)\<lparr>ball_speed := v'\<rparr>\<rparr>))
      else s)"

text \<open>
  \<^verbatim>\<open>updateGame\<close> from the clock read to the call of \<^verbatim>\<open>handleWallCollisions\<close>
  (lines 335-356), block by block: the clock and the fire cooldown (335-336), the
  fireball timer (338-341), the paddle movement with its clamp (343-347), the ball
  movement (349-354), the walls (356).
\<close>

definition updateClock :: "real \<Rightarrow> real \<Rightarrow> Game \<Rightarrow> Game" where
  "updateClock dt now s =
     s\<lparr>elapsedTime := (now - gameStartTime s) / 1000,
       fireCooldown := (if fireCooldown s > 0 then fireCooldown s - dt else fireCooldown s)\<rparr>"

definition updateFireball :: "real \<Rightarrow> Game \<Rightarrow> Game" where
  "updateFireball dt s =
     (if ball_isFireball (ball s)
      then (let t = ball_fireballTimer (ball s) - dt;
                b = (ball s)\<lparr>ball_fireballTimer := t\<rparr>
            in s\<lparr>ball := (if t \<le> 0 then b\<lparr>ball_isFireball := False\<rparr> else b)\<rparr>)
      else s)"

definition movePaddle :: "real \<Rightarrow> Game \<Rightarrow> Game" where
  "movePaddle dt s =
     (let p = paddle s;
          mv = paddle_speed p * dt;
          x1 = (if keyLeft s then paddle_x p - mv else paddle_x p);
          x2 = (if keyRight s then x1 + mv else x1);
          x3 = (if x2 < 0 then 0 else x2);
          x4 = (if x3 + paddle_w p > real_of_int WIN_W then real_of_int WIN_W - paddle_w p
                else x3)
      in s\<lparr>paddle := p\<lparr>paddle_x := x4\<rparr>\<rparr>)"

definition moveBall :: "real \<Rightarrow> Game \<Rightarrow> Game" where
  "moveBall dt s =
     (let b = ball s; p = paddle s
      in if ball_stuck b then s\<lparr>ball := b\<lparr>ball_x := paddle_x p + paddle_w p / 2\<rparr>\<rparr>
         else s\<lparr>ball := b\<lparr>ball_x := ball_x b + ball_vx b * dt,
                             ball_y := ball_y b + ball_vy b * dt\<rparr>\<rparr>)"

definition updateGame_move :: "real \<Rightarrow> real \<Rightarrow> Game \<Rightarrow> Game" where
  "updateGame_move dt now s =
     handleWallCollisions (moveBall dt (movePaddle dt (updateFireball dt (updateClock dt now s))))"

definition updateGame :: "real \<Rightarrow> real \<Rightarrow> Game \<Rightarrow> Game" where
  "updateGame dt now s =
     (if gameState s \<noteq> GS_PLAYING then s
      else (let s1 = updateGame_move dt now s
            in if ball_y (ball s1) - ball_radius (ball s1) \<le> 0
               then (let s2 = s1\<lparr>lives := lives s1 - 1\<rparr>
                     in if lives s2 \<le> 0
                        then (saveHighScore (score s2) (saveScore (score s2) s2))
                               \<lparr>gameState := GS_GAMEOVER\<rparr>
                        else resetPaddleAndBall s2)
               else (let s3 = increaseBallSpeedOverTime dt
                                (handleProjectiles dt
                                  (handlePerks dt
                                    (handleBrickCollisions (handlePaddleCollision s1))))
                     in if bricksRemaining s3 \<le> 0
                        then (saveScore (score s3) s3)\<lparr>gameState := GS_LEVEL_CLEAR\<rparr>
                        else s3)))"

subsection \<open>Input handling (part 13) and the timer (part 14)\<close>

definition mouseClick :: "int \<Rightarrow> int \<Rightarrow> int \<Rightarrow> int \<Rightarrow> Game \<Rightarrow> Game" where
  "mouseClick button state x y s =
     (if button \<noteq> GLUT_LEFT_BUTTON \<or> state \<noteq> GLUT_DOWN then s
      else if gameState s = GS_PLAYING \<and> fireCooldown s \<le> 0
      then (let p = paddle s
            in s\<lparr>projectiles := projectiles s
                    @ [\<lparr>proj_x = paddle_x p + 10, proj_y = paddle_y p + paddle_h p,
                        proj_vy = 500, proj_alive = True\<rparr>,
                       \<lparr>proj_x = paddle_x p + paddle_w p - 10, proj_y = paddle_y p + paddle_h p,
                        proj_vy = 500, proj_alive = True\<rparr>],
                  fireCooldown := FIRE_RATE\<rparr>)
      else s)"

definition passiveMouse :: "int \<Rightarrow> int \<Rightarrow> Game \<Rightarrow> Game" where
  "passiveMouse x y s =
     (if gameState s = GS_PLAYING
      then (let p = (paddle s)\<lparr>paddle_x := real_of_int x - paddle_w (paddle s) * 0.5\<rparr>;
                b = ball s
            in s\<lparr>paddle := p,
                  ball := (if ball_stuck b then b\<lparr>ball_x := paddle_x p + paddle_w p * 0.5\<rparr>
                           else b)\<rparr>)
      else s)"

text \<open>\<^verbatim>\<open>(int)(elapsedTime*1000.0)\<close>: the conversion truncates towards zero.\<close>

definition truncateToInt :: "real \<Rightarrow> int" where
  "truncateToInt v = (if v \<ge> 0 then \<lfloor>v\<rfloor> else \<lceil>v\<rceil>)"

text \<open>
  \<^verbatim>\<open>openHelpFile\<close> writes \<^verbatim>\<open>help.txt\<close> and starts a viewer; neither is part of
  the state. \<^verbatim>\<open>playMusic\<close> and \<^verbatim>\<open>stopMusic\<close> leave the flag.
\<close>

definition openHelpFile :: "Game \<Rightarrow> Game" where
  "openHelpFile s = s"

definition stopMusic :: "Game \<Rightarrow> Game" where
  "stopMusic s = s\<lparr>musicPlaying := False\<rparr>"

definition playMusic :: "Game \<Rightarrow> Game" where
  "playMusic s =
     (let s1 = stopMusic s
      in if musicFileExists s1 then s1\<lparr>musicPlaying := True\<rparr> else s1)"

text \<open>
  \<^verbatim>\<open>keyboardDown\<close>. \<open>None\<close> is \<^verbatim>\<open>exit(0)\<close>: the process ends and there is no
  next state.
\<close>

definition keyboardDown :: "real \<Rightarrow> char \<Rightarrow> Game \<Rightarrow> Game option" where
  "keyboardDown now key s =
     (if key = CHR 0x1B then
        (if gameState s = GS_MENU then None else Some (s\<lparr>gameState := GS_MENU\<rparr>))
      else if key = CHR '' '' then
        (if gameState s = GS_PLAYING \<and> ball_stuck (ball s) then Some (launchBall s)
         else if gameState s = GS_LEVEL_CLEAR
         then (let s1 = s\<lparr>currentLevel := currentLevel s + 1\<rparr>
               in Some (startLevel now (currentLevel s1) s1))
         else if gameState s = GS_GAMEOVER then Some (startNewGame now s)
         else Some s)
      else if key = CHR ''p'' \<or> key = CHR ''P'' then
        (if gameState s = GS_PLAYING then Some (s\<lparr>gameState := GS_PAUSED\<rparr>)
         else if gameState s = GS_PAUSED
         then Some (s\<lparr>gameState := GS_PLAYING,
                       gameStartTime := now - real_of_int (truncateToInt (elapsedTime s * 1000))\<rparr>)
         else Some s)
      else if key = CHR ''r'' \<or> key = CHR ''R'' then
        (if gameState s = GS_PLAYING \<or> gameState s = GS_PAUSED
         then Some (startLevel now (currentLevel s) s) else Some s)
      else if key = CHR ''a'' \<or> key = CHR ''A'' then Some (s\<lparr>keyLeft := True\<rparr>)
      else if key = CHR ''d'' \<or> key = CHR ''D'' then Some (s\<lparr>keyRight := True\<rparr>)
      else if gameState s = GS_MENU then
        (if key = CHR ''1'' then Some (startNewGame now s)
         else if key = CHR ''2'' then Some (s\<lparr>gameState := GS_SCOREBOARD\<rparr>)
         else if key = CHR ''3'' then Some (s\<lparr>gameState := GS_MUSIC_MENU\<rparr>)
         else if key = CHR ''4'' then Some ((openHelpFile s)\<lparr>gameState := GS_HELP\<rparr>)
         else Some s)
      else if gameState s = GS_MUSIC_MENU then
        (if key = CHR ''1'' then Some ((playMusic s)\<lparr>gameState := GS_MENU\<rparr>)
         else if key = CHR ''2'' then Some ((stopMusic s)\<lparr>gameState := GS_MENU\<rparr>)
         else Some s)
      else Some s)"

definition keyboardUp :: "char \<Rightarrow> Game \<Rightarrow> Game" where
  "keyboardUp key s =
     (let s1 = (if key = CHR ''a'' \<or> key = CHR ''A'' then s\<lparr>keyLeft := False\<rparr> else s)
      in if key = CHR ''d'' \<or> key = CHR ''D'' then s1\<lparr>keyRight := False\<rparr> else s1)"

definition specialDown :: "int \<Rightarrow> Game \<Rightarrow> Game" where
  "specialDown key s =
     (let s1 = (if key = GLUT_KEY_LEFT then s\<lparr>keyLeft := True\<rparr> else s)
      in if key = GLUT_KEY_RIGHT then s1\<lparr>keyRight := True\<rparr> else s1)"

definition specialUp :: "int \<Rightarrow> Game \<Rightarrow> Game" where
  "specialUp key s =
     (let s1 = (if key = GLUT_KEY_LEFT then s\<lparr>keyLeft := False\<rparr> else s)
      in if key = GLUT_KEY_RIGHT then s1\<lparr>keyRight := False\<rparr> else s1)"

text \<open>
  The input events GLUT delivers to the callbacks registered in \<^verbatim>\<open>main\<close>, and their
  dispatch. \<^verbatim>\<open>passiveMouse\<close> is registered for motion with and without a button.
\<close>

datatype Event =
  KeyDown char | KeyUp char | SpecialDown int | SpecialUp int
  | MouseClick int int int int | MouseMove int int

fun handleEvent :: "real \<Rightarrow> Event \<Rightarrow> Game \<Rightarrow> Game option" where
  "handleEvent now (KeyDown k) s = keyboardDown now k s"
| "handleEvent now (KeyUp k) s = Some (keyboardUp k s)"
| "handleEvent now (SpecialDown k) s = Some (specialDown k s)"
| "handleEvent now (SpecialUp k) s = Some (specialUp k s)"
| "handleEvent now (MouseClick b st x y) s = Some (mouseClick b st x y s)"
| "handleEvent now (MouseMove x y) s = Some (passiveMouse x y s)"

text \<open>
  \<^verbatim>\<open>timerFunc\<close>: \<open>lastTick\<close> is its static variable \<^verbatim>\<open>last\<close>, \<open>now\<close> the clock in
  milliseconds. It returns the new value of \<^verbatim>\<open>last\<close> with the state.
\<close>

definition timerFunc :: "int \<Rightarrow> int \<Rightarrow> Game \<Rightarrow> int \<times> Game" where
  "timerFunc lastTick now s =
     (let dt = real_of_int (now - lastTick) / 1000;
          dt' = (if dt > 0.1 then 0.1 else dt)
      in (now, if gameState s = GS_PLAYING then updateGame dt' (real_of_int now) s else s))"

section \<open>Definitions used by the statements\<close>

text \<open>
  The globals as the program initialises them before \<^verbatim>\<open>main\<close> runs (zeroed
  structs, the initialisers of part 3), with a random source that always answers 0, no
  score file yet and a writable directory.
\<close>

definition initialGame :: Game where
  "initialGame =
     \<lparr>gameState = GS_MENU, currentLevel = 1,
      ball = \<lparr>ball_x = 0, ball_y = 0, ball_vx = 0, ball_vy = 0, ball_radius = 0,
              ball_speed = 0, ball_stuck = False, ball_isFireball = False,
              ball_fireballTimer = 0\<rparr>,
      paddle = \<lparr>paddle_x = 0, paddle_y = 0, paddle_w = 0, paddle_h = 0, paddle_speed = 0\<rparr>,
      bricks = [], perks = [], projectiles = [],
      score = 0, lives = 3, highScore = 0, bricksRemaining = 0,
      gameStartTime = 0, elapsedTime = 0, fireCooldown = 0,
      keyLeft = False, keyRight = False, musicPlaying = False,
      rands = (\<lambda>n. 0), scoreFile = None, highScoreFile = None,
      filesWritable = True, musicFileExists = False\<rparr>"

text \<open>
  The loop invariant of \<^verbatim>\<open>createBricksForLevel\<close> after \<open>k\<close> bricks, for the random
  stream \<open>rs\<close> the function started with: \<open>k\<close> bricks and the counter at \<open>k\<close>,
  two draws used per brick, every brick alive with the hit count of its first draw.
\<close>

definition levelInv :: "int \<Rightarrow> (nat \<Rightarrow> nat) \<Rightarrow> nat \<Rightarrow> Game \<Rightarrow> bool" where
  "levelInv L rs k s \<longleftrightarrow>
     length (bricks s) = k \<and> bricksRemaining s = int k
     \<and> rands s = (\<lambda>n. rs (n + 2 * k))
     \<and> (\<forall>i<k. brick_alive (bricks s ! i)
               \<and> brick_hits (bricks s ! i) = brickHits L (rs (2 * i)))"

text \<open>
  The index of the first brick of the list that is alive and whose box overlaps the
  ball's: the brick at which the tests of lines 267-268 first succeed. It is the length
  of the list when there is none.
\<close>

definition firstHit :: "Game \<Rightarrow> nat" where
  "firstHit s =
     length (takeWhile (\<lambda>b. \<not> (brick_alive b \<and> overlaps (ball s) b)) (bricks s))"

text \<open>What \<^verbatim>\<open>resetPaddleAndBall\<close> assigns, with the arithmetic done.\<close>

definition resetPaddle :: Paddle where
  "resetPaddle = \<lparr>paddle_x = 340, paddle_y = 50, paddle_w = 120, paddle_h = 16,
                    paddle_speed = 600\<rparr>"

definition resetBall :: Ball where
  "resetBall = \<lparr>ball_x = 400, ball_y = 75, ball_vx = 0, ball_vy = 0, ball_radius = 8,
                  ball_speed = 380, ball_stuck = True, ball_isFireball = False,
                  ball_fireballTimer = 0\<rparr>"

text \<open>
  The magnitude of the ball's velocity, the \<^verbatim>\<open>vmag\<close> of
  \<^verbatim>\<open>normalizeBallVelocity\<close> (line 238).
\<close>

definition vmag :: "Ball \<Rightarrow> real" where
  "vmag b = sqrt (ball_vx b * ball_vx b + ball_vy b * ball_vy b)"

subsection \<open>Concrete states\<close>

text \<open>
  Two neighbouring bricks of the bottom row of level 1 (columns 0 and 1, with the
  generator's geometry), the first with two hits left, and the ball rising under the gap
  between them so that its box overlaps both. The flag chooses fireball mode.
\<close>

definition twoBrickGame :: "bool \<Rightarrow> Game" where
  "twoBrickGame fb =
     initialGame
       \<lparr>gameState := GS_PLAYING,
        ball := \<lparr>ball_x = 125, ball_y = 411, ball_vx = 0, ball_vy = 380, ball_radius = 8,
                 ball_speed = 380, ball_stuck = False, ball_isFireball = fb,
                 ball_fireballTimer = (if fb then 10 else 0)\<rparr>,
        paddle := \<lparr>paddle_x = 340, paddle_y = 50, paddle_w = 120, paddle_h = 16,
                   paddle_speed = 600\<rparr>,
        bricks := [\<lparr>brick_x = 60, brick_y = 416, brick_w = 62.6, brick_h = 22,
                    brick_hits = 2, brick_alive = True, brick_type = 0\<rparr>,
                   \<lparr>brick_x = 128.6, brick_y = 416, brick_w = 62.6, brick_h = 22,
                    brick_hits = 1, brick_alive = True, brick_type = 0\<rparr>],
        bricksRemaining := 2\<rparr>"

text \<open>
  A game at level 2 with \<open>n\<close> lives, a paddle widened to 160 and a ball at speed 410
  falling just above the bottom edge, far from the paddle: the next tick loses the ball.
\<close>

definition missGame :: "int \<Rightarrow> Game" where
  "missGame n =
     initialGame
       \<lparr>gameState := GS_PLAYING, currentLevel := 2, lives := n, score := 120,
        ball := \<lparr>ball_x = 700, ball_y = 10, ball_vx = 0, ball_vy = - 410, ball_radius = 8,
                 ball_speed = 410, ball_stuck = False, ball_isFireball = False,
                 ball_fireballTimer = 0\<rparr>,
        paddle := \<lparr>paddle_x = 100, paddle_y = 50, paddle_w = 160, paddle_h = 16,
                   paddle_speed = 600\<rparr>,
        bricks := [\<lparr>brick_x = 60, brick_y = 416, brick_w = 62.6, brick_h = 22,
                    brick_hits = 1, brick_alive = True, brick_type = 0\<rparr>],
        bricksRemaining := 1,
        scoreFile := Some [10, 20, 30, 40, 50], highScore := 100\<rparr>"

definition deathPerk :: Perk where
  "deathPerk = \<lparr>perk_x = 150, perk_y = 60, perk_vy = - 150, perk_type = 5, perk_alive = True\<rparr>"


text \<open>
  One life and one brick left: the ball rises into the last brick while a death perk
  falls into the paddle, both within the next tick.
\<close>

definition lastBrickDeathPerkGame :: Game where
  "lastBrickDeathPerkGame =
     initialGame
       \<lparr>gameState := GS_PLAYING, currentLevel := 2, lives := 1, score := 120,
        ball := \<lparr>ball_x = 91.3, ball_y = 405, ball_vx = 0, ball_vy = 380, ball_radius = 8,
                 ball_speed = 380, ball_stuck = False, ball_isFireball = False,
                 ball_fireballTimer = 0\<rparr>,
        paddle := \<lparr>paddle_x = 100, paddle_y = 50, paddle_w = 160, paddle_h = 16,
                   paddle_speed = 600\<rparr>,
        bricks := [\<lparr>brick_x = 60, brick_y = 416, brick_w = 62.6, brick_h = 22,
                    brick_hits = 1, brick_alive = True, brick_type = 0\<rparr>],
        perks := [deathPerk],
        bricksRemaining := 1,
        scoreFile := Some [10, 20, 30, 40, 50], highScore := 100\<rparr>"

subsection \<open>The state machine of the spec\<close>

text \<open>
  The transitions the spec lists for input events (section 4.4), as a relation between
  the mode and the event: Menu to Playing, Scoreboard, MusicMenu and Help on the menu
  selections; Playing to Paused and back on the pause toggle; LevelClear to Playing and
  GameOver to Playing on the advance and restart action; any non-Menu mode to Menu, and
  Menu to the end of the process, on the cancel action; Playing or Paused to Playing on
  the level-restart action. The spec names the actions, not the keys; the keys are those
  the handler tests (ESC cancels, space advances and restarts, P toggles the pause, R
  restarts the level, the digits 1 to 4 select in the menu). Playing to LevelClear and
  to GameOver are transitions of the tick, not of an input event. This definition
  follows the spec, not the source.
\<close>

definition specTransition :: "GameState \<Rightarrow> Event \<Rightarrow> bool" where
  "specTransition m e \<longleftrightarrow>
     (case e of
        KeyDown k \<Rightarrow>
          (m = GS_MENU \<and> (k = CHR ''1'' \<or> k = CHR ''2'' \<or> k = CHR ''3'' \<or> k = CHR ''4''))
          \<or> ((m = GS_PLAYING \<or> m = GS_PAUSED) \<and> (k = CHR ''p'' \<or> k = CHR ''P''))
          \<or> ((m = GS_LEVEL_CLEAR \<or> m = GS_GAMEOVER) \<and> k = CHR '' '')
          \<or> k = CHR 0x1B
          \<or> ((m = GS_PLAYING \<or> m = GS_PAUSED) \<and> (k = CHR ''r'' \<or> k = CHR ''R''))
      | _ \<Rightarrow> False)"

text \<open>
  The transitions of the source that the list of the spec lacks: the two selections of
  the music menu, which both return to the menu (lines 631-634).
\<close>

definition musicMenuChoice :: "GameState \<Rightarrow> Event \<Rightarrow> bool" where
  "musicMenuChoice m e \<longleftrightarrow>
     m = GS_MUSIC_MENU \<and> (e = KeyDown (CHR ''1'') \<or> e = KeyDown (CHR ''2''))"

section \<open>Score persistence\<close>

text \<open>
  C8. Saving a score \<open>S\<close> puts it in front of the recent scores read from the file and
  keeps at most 5 entries, whatever the file held before, provided the output stream
  opens (otherwise \<^verbatim>\<open>saveScore\<close> writes nothing). The spec's example, 25 saved over
  10, 20, 30, 40, 50, is the witness.
\<close>

theorem saveScore_prepends_truncates:
  "filesWritable s \<Longrightarrow>
     loadRecentScores (saveScore S s) = take 5 (S # loadRecentScores s)
     \<and> length (loadRecentScores (saveScore S s)) \<le> 5
     \<and> scoreFile (saveScore S s) = Some (take 5 (S # loadRecentScores s))"
  by (simp add: saveScore_def loadRecentScores_def MAX_RECENT_def Let_def)

theorem saveScore_prepends_truncates_witness:
  "filesWritable (initialGame\<lparr>scoreFile := Some [10, 20, 30, 40, 50]\<rparr>)
   \<and> loadRecentScores (initialGame\<lparr>scoreFile := Some [10, 20, 30, 40, 50]\<rparr>)
       = [10, 20, 30, 40, 50]
   \<and> loadRecentScores (saveScore 25 (initialGame\<lparr>scoreFile := Some [10, 20, 30, 40, 50]\<rparr>))
       = [25, 10, 20, 30, 40]"
  using saveScore_prepends_truncates [of "initialGame\<lparr>scoreFile := Some [10, 20, 30, 40, 50]\<rparr>" 25]
  by (simp add: initialGame_def loadRecentScores_def)

section \<open>Level generation\<close>

lemma makeBrick_levelInv:
  "levelInv L rs k s \<Longrightarrow> levelInv L rs (Suc k) (makeBrick L r c s)"
  unfolding levelInv_def makeBrick_def rand_def
  by (auto simp: Let_def nth_append less_Suc_eq fun_eq_iff)

lemma row_levelInv:
  "levelInv L rs k s \<Longrightarrow>
     levelInv L rs (k + length cs) (foldl (\<lambda>a c. makeBrick L r c a) s cs)"
proof (induction cs arbitrary: k s)
  case Nil
  then show ?case by simp
next
  case (Cons c cs)
  from makeBrick_levelInv [OF Cons.prems]
  have "levelInv L rs (Suc k) (makeBrick L r c s)" .
  from Cons.IH [OF this] show ?case by simp
qed

lemma grid_levelInv:
  "levelInv L rs k s \<Longrightarrow>
     levelInv L rs (k + 10 * length rws)
       (foldl (\<lambda>a r. foldl (\<lambda>a' c. makeBrick L r c a') a [0..<10]) s rws)"
proof (induction rws arbitrary: k s)
  case Nil
  then show ?case by simp
next
  case (Cons r rws)
  from row_levelInv [OF Cons.prems, of "[0..<10]" r]
  have "levelInv L rs (k + 10) (foldl (\<lambda>a' c. makeBrick L r c a') s [0..<10])" by simp
  from Cons.IH [OF this] show ?case by (simp add: add.assoc)
qed

lemma createBricksForLevel_levelInv:
  "levelInv L (rands s) (10 * nat (min (3 + L) 8)) (createBricksForLevel L s)"
proof -
  let ?s0 = "s\<lparr>bricks := [], perks := [], projectiles := [], bricksRemaining := 0\<rparr>"
  have "levelInv L (rands s) 0 ?s0" by (simp add: levelInv_def)
  from grid_levelInv [OF this, of "[0..<nat (min (3 + L) 8)]"]
  show ?thesis
    by (simp add: createBricksForLevel_def Let_def levelInv_def)
qed

text \<open>
  C3. For every level \<open>L \<ge> 1\<close>, \<^verbatim>\<open>createBricksForLevel\<close> leaves
  \<open>min (3 + L) 8 \<times> 10\<close> bricks, all of them alive, and the bricks-remaining counter
  equal to that number.
\<close>

theorem createBricksForLevel_count:
  "1 \<le> L \<Longrightarrow>
   length (bricks (createBricksForLevel L s)) = nat (min (3 + L) 8) * 10
   \<and> (\<forall>b \<in> set (bricks (createBricksForLevel L s)). brick_alive b)
   \<and> bricksRemaining (createBricksForLevel L s)
       = int (length (bricks (createBricksForLevel L s)))
   \<and> bricksRemaining (createBricksForLevel L s) = min (3 + L) 8 * 10"
  using createBricksForLevel_levelInv [of L s]
  by (auto simp: levelInv_def all_set_conv_all_nth)

theorem createBricksForLevel_count_witness:
  "(1::int) \<le> 1
   \<and> length (bricks (createBricksForLevel 1 initialGame)) = 40
   \<and> bricksRemaining (createBricksForLevel 1 initialGame) = 40"
  using createBricksForLevel_count [of 1 initialGame] by simp

lemma brickHits_two_iff:
  "d < 100 \<Longrightarrow> brickHits L d = 2 \<longleftrightarrow> int d < max 0 (L - 1) * 15"
  by (auto simp: brickHits_def max_def split: if_splits)

lemma card_brickHits_two:
  "card {d. d < 100 \<and> brickHits L d = 2} = nat (min 100 (max 0 (L - 1) * 15))"
proof -
  let ?T = "max 0 (L - 1) * 15"
  have "{d. d < 100 \<and> brickHits L d = 2} = {d. d < 100 \<and> int d < ?T}"
    using brickHits_two_iff by blast
  also have "\<dots> = {..<nat (min 100 ?T)}"
    by (auto simp: max_def min_def split: if_splits)
  finally show ?thesis by simp
qed

text \<open>
  C2, as the spec words it, gives a brick two hits with probability
  \<open>min(0, L - 1) \<times> 15%\<close>, which is 0 at every level. The code compares the draw
  \<^verbatim>\<open>rand()%100\<close> with \<open>max(0, L - 1) \<times> 15\<close>: at level 2, 15 of the 100 values of the
  draw give two hits, and with a random source that answers 0 the first brick has two.
\<close>

theorem brick_hits_min_counterexample:
  "brick_hits (bricks (createBricksForLevel 2 initialGame) ! 0) = 2
   \<and> card {d. d < 100 \<and> brickHits 2 d = 2} = 15
   \<and> min 0 (2 - 1) * 15 = (0::int)"
  using createBricksForLevel_levelInv [of 2 initialGame] card_brickHits_two [of 2]
  by (simp add: levelInv_def brickHits_def initialGame_def)

text \<open>
  C2, amended. For every level \<open>L \<ge> 1\<close> and every random source, the \<open>i\<close>-th brick
  generated has two hits exactly when its draw \<^verbatim>\<open>rand()%100\<close> (the draw number
  \<open>2 i\<close> of the source) is below \<open>max(0, L - 1) \<times> 15\<close>, and one hit otherwise; so
  \<open>min(100, max(0, L - 1) \<times> 15)\<close> of the 100 values of the draw give two hits.
\<close>

theorem brick_hits_by_draw:
  "1 \<le> L \<Longrightarrow>
   (\<forall>i < nat (min (3 + L) 8) * 10.
      brick_hits (bricks (createBricksForLevel L s) ! i)
        = (if int (rands s (2 * i) mod 100) < max 0 (L - 1) * 15 then 2 else 1))
   \<and> card {d. d < 100 \<and> brickHits L d = 2} = nat (min 100 (max 0 (L - 1) * 15))"
  using createBricksForLevel_levelInv [of L s] card_brickHits_two [of L]
  by (simp add: levelInv_def brickHits_def mult.commute)

theorem brick_hits_by_draw_witness:
  "(1::int) \<le> 2
   \<and> brick_hits (bricks (createBricksForLevel 2 initialGame) ! 0) = 2
   \<and> card {d. d < 100 \<and> brickHits 2 d = 2} = 15"
  using brick_hits_by_draw [of 2 initialGame] by (simp add: initialGame_def)

section \<open>Brick collisions\<close>

lemma fst_damageBrick:
  "fst (damageBrick b s) =
     (if brick_hits b - 1 \<le> 0 then b\<lparr>brick_hits := brick_hits b - 1, brick_alive := False\<rparr>
      else b\<lparr>brick_hits := brick_hits b - 1\<rparr>)"
  by (simp add: damageBrick_def destroyBrick_def Let_def)

lemma spawnPerk_frame:
  "ball (spawnPerk x y s) = ball s"
  "score (spawnPerk x y s) = score s"
  "bricksRemaining (spawnPerk x y s) = bricksRemaining s"
  by (simp_all add: spawnPerk_def rand_def Let_def)

lemma destroyBrick_effect:
  "fst (destroyBrick b s) = b\<lparr>brick_alive := False\<rparr>"
  "ball (snd (destroyBrick b s)) = ball s"
  "score (snd (destroyBrick b s)) = score s + 10"
  "bricksRemaining (snd (destroyBrick b s)) = bricksRemaining s - 1"
  by (simp_all add: destroyBrick_def Let_def spawnPerk_frame)

lemma reflectBall_effect:
  "score (reflectBall b s) = score s"
  "bricksRemaining (reflectBall b s) = bricksRemaining s"
  by (simp_all add: reflectBall_def Let_def)

lemma damageBrick_counters:
  "score (snd (damageBrick b s)) = score s + (if brick_hits b - 1 \<le> 0 then 10 else 5)"
  "bricksRemaining (snd (damageBrick b s))
     = bricksRemaining s - (if brick_hits b - 1 \<le> 0 then 1 else 0)"
  by (simp_all add: damageBrick_def Let_def destroyBrick_effect)

text \<open>In fireball mode the loop visits every brick: each alive overlapping brick dies.\<close>

lemma loop_fireball:
  "ball_isFireball (ball s) \<Longrightarrow>
     fst (handleBrickCollisions_loop bs s)
       = map (\<lambda>b. if brick_alive b \<and> overlaps (ball s) b then b\<lparr>brick_alive := False\<rparr>
                   else b) bs"
proof (induction bs arbitrary: s)
  case Nil
  then show ?case by simp
next
  case (Cons b bs)
  obtain b' s' where d: "destroyBrick b s = (b', s')" by fastforce
  have b': "b' = b\<lparr>brick_alive := False\<rparr>" and bl: "ball s' = ball s"
    using destroyBrick_effect(1,2) [of b s] d by simp_all
  have fb: "ball_isFireball (ball s')" using Cons.prems bl by simp
  show ?case
    using Cons.IH [OF Cons.prems] Cons.IH [OF fb] Cons.prems d b' bl by simp
qed

text \<open>Otherwise the loop stops at the first alive overlapping brick.\<close>

lemma loop_nofire:
  "\<not> ball_isFireball (ball s) \<Longrightarrow>
     handleBrickCollisions_loop bs s =
       (let i = length (takeWhile (\<lambda>b. \<not> (brick_alive b \<and> overlaps (ball s) b)) bs)
        in if i < length bs
           then (bs[i := fst (damageBrick (bs ! i) (reflectBall (bs ! i) s))],
                 snd (damageBrick (bs ! i) (reflectBall (bs ! i) s)))
           else (bs, s))"
proof (induction bs)
  case Nil
  then show ?case by simp
next
  case (Cons b bs)
  then show ?case
    by (auto simp: Let_def split: prod.split)
qed

lemma length_loop: "length (fst (handleBrickCollisions_loop bs s)) = length bs"
  by (induction bs arbitrary: s) (auto split: prod.split)

lemma bricks_handleBrickCollisions:
  "bricks (handleBrickCollisions s) = fst (handleBrickCollisions_loop (bricks s) s)"
  by (simp add: handleBrickCollisions_def split: prod.split)

lemma handleBrickCollisions_nofire:
  assumes "\<not> ball_isFireball (ball s)" "firstHit s < length (bricks s)"
  shows "bricks (handleBrickCollisions s)
           = (bricks s)[firstHit s := fst (damageBrick (bricks s ! firstHit s) s)]"
    and "score (handleBrickCollisions s)
           = score s + (if brick_hits (bricks s ! firstHit s) - 1 \<le> 0 then 10 else 5)"
    and "bricksRemaining (handleBrickCollisions s)
           = bricksRemaining s - (if brick_hits (bricks s ! firstHit s) - 1 \<le> 0 then 1 else 0)"
  using assms
  by (simp_all add: handleBrickCollisions_def loop_nofire firstHit_def Let_def fst_damageBrick
        damageBrick_counters reflectBall_effect)

lemma handleBrickCollisions_nofire_miss:
  assumes "\<not> ball_isFireball (ball s)" "\<not> firstHit s < length (bricks s)"
  shows "bricks (handleBrickCollisions s) = bricks s"
  using assms
  by (simp add: handleBrickCollisions_def loop_nofire firstHit_def Let_def)

lemma firstHit_twoBrickGame: "firstHit (twoBrickGame fb) = 0"
  by (simp add: firstHit_def twoBrickGame_def overlaps_def)

text \<open>
  C1, as stated, holds "regardless of whether the ball is in fireball mode". The
  \<^verbatim>\<open>break\<close> of \<^verbatim>\<open>handleBrickCollisions\<close> is inside the non-fireball branch only.
  In fireball mode, with two alive bricks overlapping the ball, the pass destroys the
  second brick as well and scores 20.
\<close>

theorem fireball_destroys_second_brick:
  "ball_isFireball (ball (twoBrickGame True))
   \<and> firstHit (twoBrickGame True) = 0
   \<and> brick_alive (bricks (twoBrickGame True) ! 1)
   \<and> overlaps (ball (twoBrickGame True)) (bricks (twoBrickGame True) ! 1)
   \<and> bricks (handleBrickCollisions (twoBrickGame True)) ! 1 \<noteq> bricks (twoBrickGame True) ! 1
   \<and> \<not> brick_alive (bricks (handleBrickCollisions (twoBrickGame True)) ! 1)
   \<and> score (handleBrickCollisions (twoBrickGame True)) = score (twoBrickGame True) + 20"
  by (simp add: firstHit_def twoBrickGame_def overlaps_def handleBrickCollisions_def
        destroyBrick_def Let_def initialGame_def)

text \<open>
  C1, amended. A brick-collision pass keeps the number of bricks. When the ball is not
  in fireball mode, every brick other than the first alive overlapping one is left
  unchanged, and that first one, if there is one, loses one hit. When the ball is in
  fireball mode, every alive overlapping brick is destroyed in the same pass and every
  other brick is left unchanged.
\<close>

theorem brick_pass_first_only_unless_fireball:
  "length (bricks (handleBrickCollisions s)) = length (bricks s)
   \<and> (\<not> ball_isFireball (ball s) \<longrightarrow>
        (\<forall>j < length (bricks s). j \<noteq> firstHit s \<longrightarrow>
            bricks (handleBrickCollisions s) ! j = bricks s ! j)
        \<and> (firstHit s < length (bricks s) \<longrightarrow>
            brick_hits (bricks (handleBrickCollisions s) ! firstHit s)
              = brick_hits (bricks s ! firstHit s) - 1))
   \<and> (ball_isFireball (ball s) \<longrightarrow>
        (\<forall>j < length (bricks s).
            bricks (handleBrickCollisions s) ! j
              = (if brick_alive (bricks s ! j) \<and> overlaps (ball s) (bricks s ! j)
                 then (bricks s ! j)\<lparr>brick_alive := False\<rparr> else bricks s ! j)))"
proof (intro conjI impI allI)
  show "length (bricks (handleBrickCollisions s)) = length (bricks s)"
    by (simp add: bricks_handleBrickCollisions length_loop)
next
  fix j
  assume nf: "\<not> ball_isFireball (ball s)" and j: "j < length (bricks s)" "j \<noteq> firstHit s"
  show "bricks (handleBrickCollisions s) ! j = bricks s ! j"
  proof (cases "firstHit s < length (bricks s)")
    case True
    from handleBrickCollisions_nofire(1) [OF nf True] j show ?thesis by simp
  next
    case False
    from handleBrickCollisions_nofire_miss [OF nf False] show ?thesis by simp
  qed
next
  assume nf: "\<not> ball_isFireball (ball s)" and h: "firstHit s < length (bricks s)"
  from handleBrickCollisions_nofire(1) [OF nf h] h
  show "brick_hits (bricks (handleBrickCollisions s) ! firstHit s)
          = brick_hits (bricks s ! firstHit s) - 1"
    by (simp add: fst_damageBrick)
next
  fix j
  assume fb: "ball_isFireball (ball s)" and j: "j < length (bricks s)"
  from loop_fireball [OF fb, of "bricks s"] j
  show "bricks (handleBrickCollisions s) ! j
          = (if brick_alive (bricks s ! j) \<and> overlaps (ball s) (bricks s ! j)
             then (bricks s ! j)\<lparr>brick_alive := False\<rparr> else bricks s ! j)"
    by (simp add: bricks_handleBrickCollisions)
qed

theorem brick_pass_first_only_unless_fireball_witness:
  "\<not> ball_isFireball (ball (twoBrickGame False))
   \<and> firstHit (twoBrickGame False) = 0
   \<and> overlaps (ball (twoBrickGame False)) (bricks (twoBrickGame False) ! 1)
   \<and> bricks (handleBrickCollisions (twoBrickGame False)) ! 1 = bricks (twoBrickGame False) ! 1
   \<and> brick_hits (bricks (handleBrickCollisions (twoBrickGame False)) ! 0) = 1
   \<and> ball_isFireball (ball (twoBrickGame True))
   \<and> \<not> brick_alive (bricks (handleBrickCollisions (twoBrickGame True)) ! 1)"
proof -
  have nf: "\<not> ball_isFireball (ball (twoBrickGame False))"
    and fb: "ball_isFireball (ball (twoBrickGame True))"
    and len: "length (bricks (twoBrickGame b)) = 2" for b
    by (simp_all add: twoBrickGame_def)
  have ov: "overlaps (ball (twoBrickGame b)) (bricks (twoBrickGame b) ! 1)"
       "brick_alive (bricks (twoBrickGame b) ! 1)" for b
    by (simp_all add: twoBrickGame_def overlaps_def)
  have "bricks (handleBrickCollisions (twoBrickGame False)) ! 1
          = bricks (twoBrickGame False) ! 1"
    by (rule brick_pass_first_only_unless_fireball
          [THEN conjunct2, THEN conjunct1, rule_format, THEN conjunct1, rule_format])
       (simp_all add: nf len firstHit_twoBrickGame)
  moreover have "brick_hits (bricks (handleBrickCollisions (twoBrickGame False))
                    ! firstHit (twoBrickGame False))
          = brick_hits (bricks (twoBrickGame False) ! firstHit (twoBrickGame False)) - 1"
    by (rule brick_pass_first_only_unless_fireball
          [THEN conjunct2, THEN conjunct1, rule_format, THEN conjunct2, rule_format])
       (simp_all add: nf len firstHit_twoBrickGame)
  then have "brick_hits (bricks (handleBrickCollisions (twoBrickGame False)) ! 0) = 1"
    by (simp add: firstHit_twoBrickGame) (simp add: twoBrickGame_def)
  moreover have "bricks (handleBrickCollisions (twoBrickGame True)) ! 1
          = (if brick_alive (bricks (twoBrickGame True) ! 1)
                \<and> overlaps (ball (twoBrickGame True)) (bricks (twoBrickGame True) ! 1)
             then (bricks (twoBrickGame True) ! 1)\<lparr>brick_alive := False\<rparr>
             else bricks (twoBrickGame True) ! 1)"
    by (rule brick_pass_first_only_unless_fireball
          [THEN conjunct2, THEN conjunct2, rule_format])
       (simp_all add: fb len)
  then have "\<not> brick_alive (bricks (handleBrickCollisions (twoBrickGame True)) ! 1)"
    using ov [of True] by simp
  ultimately show ?thesis
    using nf fb ov firstHit_twoBrickGame by simp
qed

text \<open>
  C6. Take a brick with two hits left that a non-fireball ball collides with, that is,
  the brick the pass processes (the first alive overlapping one). The pass leaves it
  alive with one hit, adds exactly 5 to the score and keeps the bricks-remaining
  counter. A second such collision with the brick as the first one left it, in any later
  state \<open>t\<close>, clears its alive flag, adds exactly 10 to the score and takes 1 from the
  counter.
\<close>

theorem two_hit_brick_collisions:
  assumes "\<not> ball_isFireball (ball s)"
    and "firstHit s = i" and "i < length (bricks s)"
    and "brick_hits (bricks s ! i) = 2"
  shows "brick_alive (bricks (handleBrickCollisions s) ! i)
     \<and> brick_hits (bricks (handleBrickCollisions s) ! i) = 1
     \<and> score (handleBrickCollisions s) = score s + 5
     \<and> bricksRemaining (handleBrickCollisions s) = bricksRemaining s
     \<and> (\<forall>t. \<not> ball_isFireball (ball t) \<and> firstHit t = i \<and> i < length (bricks t)
              \<and> bricks t ! i = bricks (handleBrickCollisions s) ! i
            \<longrightarrow> \<not> brick_alive (bricks (handleBrickCollisions t) ! i)
                \<and> score (handleBrickCollisions t) = score t + 10
                \<and> bricksRemaining (handleBrickCollisions t) = bricksRemaining t - 1)"
proof -
  have hit: "firstHit s < length (bricks s)" using assms by simp
  have al: "brick_alive (bricks s ! i)"
    using assms(2,3)
      nth_length_takeWhile [of "\<lambda>b. \<not> (brick_alive b \<and> overlaps (ball s) b)" "bricks s"]
    by (auto simp: firstHit_def)
  have b1: "bricks (handleBrickCollisions s) ! i = (bricks s ! i)\<lparr>brick_hits := 1\<rparr>"
    using handleBrickCollisions_nofire(1) [OF assms(1) hit] assms by (simp add: fst_damageBrick)
  have first: "brick_alive (bricks (handleBrickCollisions s) ! i)
     \<and> brick_hits (bricks (handleBrickCollisions s) ! i) = 1
     \<and> score (handleBrickCollisions s) = score s + 5
     \<and> bricksRemaining (handleBrickCollisions s) = bricksRemaining s"
    using handleBrickCollisions_nofire(2,3) [OF assms(1) hit] assms b1 al by simp
  have second: "\<not> brick_alive (bricks (handleBrickCollisions t) ! i)
                \<and> score (handleBrickCollisions t) = score t + 10
                \<and> bricksRemaining (handleBrickCollisions t) = bricksRemaining t - 1"
    if t: "\<not> ball_isFireball (ball t)" "firstHit t = i" "i < length (bricks t)"
      "bricks t ! i = bricks (handleBrickCollisions s) ! i" for t
  proof -
    have hit': "firstHit t < length (bricks t)" using t by simp
    have h1: "brick_hits (bricks t ! i) = 1" using t(4) b1 by simp
    show ?thesis
      using handleBrickCollisions_nofire [OF t(1) hit'] t h1 by (simp add: fst_damageBrick)
  qed
  from first second show ?thesis by blast
qed

lemma twoBrickGame_after_first:
  "\<not> ball_isFireball (ball (handleBrickCollisions (twoBrickGame False)))"
  "firstHit (handleBrickCollisions (twoBrickGame False)) = 0"
  "length (bricks (handleBrickCollisions (twoBrickGame False))) = 2"
  by (simp_all add: handleBrickCollisions_def twoBrickGame_def overlaps_def damageBrick_def
        reflectBall_def firstHit_def Let_def initialGame_def)

theorem two_hit_brick_collisions_witness:
  "\<not> ball_isFireball (ball (twoBrickGame False))
   \<and> firstHit (twoBrickGame False) = 0
   \<and> brick_hits (bricks (twoBrickGame False) ! 0) = 2
   \<and> brick_alive (bricks (handleBrickCollisions (twoBrickGame False)) ! 0)
   \<and> brick_hits (bricks (handleBrickCollisions (twoBrickGame False)) ! 0) = 1
   \<and> score (handleBrickCollisions (twoBrickGame False)) = 5
   \<and> bricksRemaining (handleBrickCollisions (twoBrickGame False)) = 2
   \<and> \<not> brick_alive (bricks (handleBrickCollisions (handleBrickCollisions (twoBrickGame False))) ! 0)
   \<and> score (handleBrickCollisions (handleBrickCollisions (twoBrickGame False))) = 15
   \<and> bricksRemaining (handleBrickCollisions (handleBrickCollisions (twoBrickGame False))) = 1"
proof -
  let ?S = "twoBrickGame False"
  let ?T = "handleBrickCollisions ?S"
  have pre: "\<not> ball_isFireball (ball ?S)" "firstHit ?S = 0" "0 < length (bricks ?S)"
    "brick_hits (bricks ?S ! 0) = 2"
    by (simp_all add: firstHit_twoBrickGame) (simp_all add: twoBrickGame_def)
  have val: "score ?S = 0" "bricksRemaining ?S = 2"
    by (simp_all add: twoBrickGame_def initialGame_def)
  note c6 = two_hit_brick_collisions [OF pre]
  from c6 have
    "\<not> ball_isFireball (ball ?T) \<and> firstHit ?T = 0 \<and> 0 < length (bricks ?T)
       \<and> bricks ?T ! 0 = bricks ?T ! 0
     \<longrightarrow> \<not> brick_alive (bricks (handleBrickCollisions ?T) ! 0)
         \<and> score (handleBrickCollisions ?T) = score ?T + 10
         \<and> bricksRemaining (handleBrickCollisions ?T) = bricksRemaining ?T - 1"
    by blast
  with c6 pre val twoBrickGame_after_first show ?thesis by simp
qed

section \<open>Losing a life\<close>

lemma resetPaddleAndBall_eq:
  "resetPaddleAndBall s = s\<lparr>paddle := resetPaddle, ball := resetBall\<rparr>"
  by (simp add: resetPaddleAndBall_def resetPaddle_def resetBall_def WIN_W_def Let_def)

text \<open>The first part of the tick touches the clock, the cooldown, the paddle and the ball.\<close>

lemma updateGame_move_frame:
  "lives (updateGame_move dt now s) = lives s"
  "score (updateGame_move dt now s) = score s"
  "bricks (updateGame_move dt now s) = bricks s"
  "perks (updateGame_move dt now s) = perks s"
  "projectiles (updateGame_move dt now s) = projectiles s"
  "bricksRemaining (updateGame_move dt now s) = bricksRemaining s"
  "gameState (updateGame_move dt now s) = gameState s"
  "highScore (updateGame_move dt now s) = highScore s"
  "scoreFile (updateGame_move dt now s) = scoreFile s"
  "highScoreFile (updateGame_move dt now s) = highScoreFile s"
  "filesWritable (updateGame_move dt now s) = filesWritable s"
  "rands (updateGame_move dt now s) = rands s"
  "currentLevel (updateGame_move dt now s) = currentLevel s"
  by (simp_all add: updateGame_move_def updateClock_def updateFireball_def movePaddle_def
        moveBall_def handleWallCollisions_def Let_def)

lemma persist_effect:
  "gameState ((saveHighScore v (saveScore v s))\<lparr>gameState := GS_GAMEOVER\<rparr>) = GS_GAMEOVER"
  "highScore (saveHighScore v (saveScore v s)) = max (highScore s) v"
  "filesWritable s \<Longrightarrow>
     scoreFile (saveHighScore v (saveScore v s)) = Some (take 5 (v # loadRecentScores s))"
  "filesWritable s \<Longrightarrow> highScore s < v \<Longrightarrow>
     highScoreFile (saveHighScore v (saveScore v s)) = Some v"
  by (simp_all add: saveHighScore_def saveScore_def MAX_RECENT_def Let_def loadRecentScores_def)

lemma persist_frame:
  "lives (saveHighScore v (saveScore v s)) = lives s"
  "score (saveHighScore v (saveScore v s)) = score s"
  "bricks (saveHighScore v (saveScore v s)) = bricks s"
  "perks (saveHighScore v (saveScore v s)) = perks s"
  "projectiles (saveHighScore v (saveScore v s)) = projectiles s"
  "bricksRemaining (saveHighScore v (saveScore v s)) = bricksRemaining s"
  "ball (saveHighScore v (saveScore v s)) = ball s"
  "paddle (saveHighScore v (saveScore v s)) = paddle s"
  "rands (saveHighScore v (saveScore v s)) = rands s"
  by (simp_all add: saveHighScore_def saveScore_def Let_def)

text \<open>The tick when the ball's lower edge is at or below the bottom after the walls.\<close>

lemma updateGame_miss:
  assumes "gameState s = GS_PLAYING"
    and "ball_y (ball (updateGame_move dt now s)) - ball_radius (ball (updateGame_move dt now s)) \<le> 0"
  shows "updateGame dt now s =
           (if lives s - 1 \<le> 0
            then (saveHighScore (score s)
                    (saveScore (score s) ((updateGame_move dt now s)\<lparr>lives := lives s - 1\<rparr>)))
                   \<lparr>gameState := GS_GAMEOVER\<rparr>
            else resetPaddleAndBall ((updateGame_move dt now s)\<lparr>lives := lives s - 1\<rparr>))"
  using assms by (simp add: updateGame_def Let_def updateGame_move_frame)

lemma applyPerk_death:
  assumes "perk_type p = 5"
  shows "snd (applyPerk p s) =
           (if lives s - 1 \<le> 0
            then (saveHighScore (score s) (saveScore (score s) (s\<lparr>lives := lives s - 1\<rparr>)))
                   \<lparr>gameState := GS_GAMEOVER\<rparr>
            else resetPaddleAndBall (s\<lparr>lives := lives s - 1\<rparr>))"
    and "fst (applyPerk p s) = p\<lparr>perk_alive := False\<rparr>"
  using assms by (simp_all add: applyPerk_def Let_def)

lemma missGame_facts:
  "gameState (missGame n) = GS_PLAYING"
  "lives (missGame n) = n"
  "score (missGame n) = 120"
  "highScore (missGame n) = 100"
  "filesWritable (missGame n)"
  "loadRecentScores (missGame n) = [10, 20, 30, 40, 50]"
  "paddle_w (paddle (missGame n)) = 160"
  "ball_speed (ball (missGame n)) = 410"
  "currentLevel (missGame n) = 2"
  by (simp_all add: missGame_def initialGame_def loadRecentScores_def)

lemma missGame_low:
  "ball_y (ball (updateGame_move 0.016 1000 (missGame n)))
     - ball_radius (ball (updateGame_move 0.016 1000 (missGame n))) \<le> 0"
  by (simp add: updateGame_move_def updateClock_def updateFireball_def movePaddle_def
        moveBall_def handleWallCollisions_def Let_def missGame_def initialGame_def
        WIN_W_def WIN_H_def)

text \<open>
  The two places that decrement the lives, each taken at its own return: the miss branch
  of \<^verbatim>\<open>updateGame\<close>, where \<open>m\<close> is the state after the movement and the
  walls and \<open>u\<close> the state the tick returns, and \<^verbatim>\<open>applyPerk\<close> for a perk of
  type 5, where \<open>u\<close> is the state \<^verbatim>\<open>applyPerk\<close> returns inside the tick. With
  the decremented lives \<open>\<le> 0\<close> the mode is game-over and the score is persisted (when
  the output streams open); with lives left, paddle and ball are reset and the ball is
  stuck. Bricks, perks, projectiles, score and bricks-remaining are as before: the miss
  branch returns before any collision processing.
\<close>

lemma life_loss_handling:
  "(gameState s = GS_PLAYING
      \<and> ball_y (ball (updateGame_move dt now s)) - ball_radius (ball (updateGame_move dt now s)) \<le> 0
      \<and> u = updateGame dt now s \<and> m = updateGame_move dt now s
    \<or> perk_type p = 5 \<and> u = snd (applyPerk p s) \<and> m = s)
   \<Longrightarrow>
     lives u = lives s - 1
     \<and> (lives s - 1 \<le> 0 \<longrightarrow>
          gameState u = GS_GAMEOVER
          \<and> highScore u = max (highScore s) (score s)
          \<and> (filesWritable s \<longrightarrow>
                scoreFile u = Some (take 5 (score s # loadRecentScores s))
                \<and> (highScore s < score s \<longrightarrow> highScoreFile u = Some (score s)))
          \<and> ball u = ball m \<and> paddle u = paddle m)
     \<and> (0 < lives s - 1 \<longrightarrow>
          paddle u = resetPaddle \<and> ball u = resetBall \<and> ball_stuck (ball u)
          \<and> gameState u = gameState s)
     \<and> bricks u = bricks s \<and> perks u = perks s \<and> projectiles u = projectiles s
     \<and> score u = score s \<and> bricksRemaining u = bricksRemaining s \<and> rands u = rands s"
proof (elim disjE conjE)
  assume a: "gameState s = GS_PLAYING"
    "ball_y (ball (updateGame_move dt now s)) - ball_radius (ball (updateGame_move dt now s)) \<le> 0"
    "u = updateGame dt now s" "m = updateGame_move dt now s"
  show ?thesis
    unfolding a(3,4) updateGame_miss [OF a(1,2)]
    by (simp add: persist_effect persist_frame resetPaddleAndBall_eq updateGame_move_frame
          loadRecentScores_def resetBall_def a(1))
next
  assume a: "perk_type p = 5" "u = snd (applyPerk p s)" "m = s"
  show ?thesis
    unfolding a(2,3) applyPerk_death(1) [OF a(1)]
    by (simp add: persist_effect persist_frame resetPaddleAndBall_eq
          loadRecentScores_def resetBall_def)
qed

lemma life_loss_handling_example:
  "gameState (missGame 1) = GS_PLAYING
   \<and> ball_y (ball (updateGame_move 0.016 1000 (missGame 1)))
        - ball_radius (ball (updateGame_move 0.016 1000 (missGame 1))) \<le> 0
   \<and> lives (updateGame 0.016 1000 (missGame 1)) = 0
   \<and> gameState (updateGame 0.016 1000 (missGame 1)) = GS_GAMEOVER
   \<and> scoreFile (updateGame 0.016 1000 (missGame 1)) = Some [120, 10, 20, 30, 40]
   \<and> highScore (updateGame 0.016 1000 (missGame 1)) = 120
   \<and> highScoreFile (updateGame 0.016 1000 (missGame 1)) = Some 120
   \<and> lives (updateGame 0.016 1000 (missGame 3)) = 2
   \<and> gameState (updateGame 0.016 1000 (missGame 3)) = GS_PLAYING
   \<and> ball_stuck (ball (updateGame 0.016 1000 (missGame 3)))
   \<and> perk_type deathPerk = 5
   \<and> gameState (snd (applyPerk deathPerk (missGame 1))) = GS_GAMEOVER
   \<and> scoreFile (snd (applyPerk deathPerk (missGame 1))) = Some [120, 10, 20, 30, 40]
   \<and> ball_stuck (ball (snd (applyPerk deathPerk (missGame 3))))"
proof -
  have dp: "perk_type deathPerk = 5" by (simp add: deathPerk_def)
  note miss = life_loss_handling [where dt = "0.016" and now = 1000 and p = deathPerk,
      OF disjI1, OF conjI [OF missGame_facts(1) conjI [OF missGame_low conjI [OF refl refl]]]]
  note perk = life_loss_handling [where dt = "0.016" and now = 1000 and p = deathPerk,
      OF disjI2, OF conjI [OF dp conjI [OF refl refl]]]
  from miss [of 1] miss [of 3] perk [of "missGame 1"] perk [of "missGame 3"]
    missGame_low [of 1]
  show ?thesis
    by (simp add: missGame_facts dp resetBall_def)
qed

lemma increaseBallSpeedOverTime_frame:
  "gameState (increaseBallSpeedOverTime dt s) = gameState s"
  "lives (increaseBallSpeedOverTime dt s) = lives s"
  "score (increaseBallSpeedOverTime dt s) = score s"
  "bricksRemaining (increaseBallSpeedOverTime dt s) = bricksRemaining s"
  "scoreFile (increaseBallSpeedOverTime dt s) = scoreFile s"
  "filesWritable (increaseBallSpeedOverTime dt s) = filesWritable s"
  by (simp_all add: increaseBallSpeedOverTime_def normalizeBallVelocity_def Let_def)

lemma saveScore_frame:
  "lives (saveScore v s) = lives s"
  "bricksRemaining (saveScore v s) = bricksRemaining s"
  by (simp_all add: saveScore_def Let_def)

text \<open>
  C5 says that whenever a death perk takes the lives to \<open>\<le> 0\<close> the state
  transitions to game-over. \<^verbatim>\<open>applyPerk\<close> sets game-over, but the tick goes on
  after \<^verbatim>\<open>handlePerks\<close> (lines 371-377) and its win check does not look at the
  mode: when the last brick goes in the same tick, the tick ends in level-clear with no
  life left, and the score is saved twice.
\<close>

theorem death_perk_and_last_brick_end_level_clear:
  "gameState lastBrickDeathPerkGame = GS_PLAYING
   \<and> lives lastBrickDeathPerkGame = 1
   \<and> map perk_type (perks lastBrickDeathPerkGame) = [5]
   \<and> bricksRemaining lastBrickDeathPerkGame = 1
   \<and> lives (updateGame 0.016 1000 lastBrickDeathPerkGame) = 0
   \<and> bricksRemaining (updateGame 0.016 1000 lastBrickDeathPerkGame) = 0
   \<and> gameState (updateGame 0.016 1000 lastBrickDeathPerkGame) = GS_LEVEL_CLEAR
   \<and> gameState (updateGame 0.016 1000 lastBrickDeathPerkGame) \<noteq> GS_GAMEOVER
   \<and> scoreFile (updateGame 0.016 1000 lastBrickDeathPerkGame) = Some [130, 130, 10, 20, 30]"
proof -
  let ?S = lastBrickDeathPerkGame
  let ?m = "updateGame_move 0.016 1000 ?S"
  let ?d = "handleProjectiles 0.016 (handlePerks 0.016 (handleBrickCollisions
              (handlePaddleCollision ?m)))"
  have up: "\<not> ball_y (ball ?m) - ball_radius (ball ?m) \<le> 0"
    by (simp add: updateGame_move_def updateClock_def updateFireball_def movePaddle_def
        moveBall_def handleWallCollisions_def Let_def lastBrickDeathPerkGame_def
        initialGame_def WIN_W_def WIN_H_def)
  have d: "gameState ?d = GS_GAMEOVER" "lives ?d = 0" "bricksRemaining ?d = 0"
    "score ?d = 130" "scoreFile ?d = Some [130, 10, 20, 30, 40]" "filesWritable ?d"
    by (simp_all add: updateGame_move_def updateClock_def updateFireball_def movePaddle_def
        moveBall_def handleWallCollisions_def Let_def lastBrickDeathPerkGame_def
        initialGame_def WIN_W_def WIN_H_def handlePaddleCollision_def
        handleBrickCollisions_def overlaps_def reflectBall_def damageBrick_def
        destroyBrick_def handlePerks_def deathPerk_def applyPerk_def saveScore_def
        saveHighScore_def loadRecentScores_def MAX_RECENT_def handleProjectiles_def)
  have g: "gameState ?S = GS_PLAYING" "lives ?S = 1" "map perk_type (perks ?S) = [5]"
    "bricksRemaining ?S = 1"
    by (simp_all add: lastBrickDeathPerkGame_def deathPerk_def)
  have u: "updateGame 0.016 1000 ?S
             = (saveScore 130 (increaseBallSpeedOverTime 0.016 ?d))\<lparr>gameState := GS_LEVEL_CLEAR\<rparr>"
    using g(1) up d by (simp add: updateGame_def Let_def increaseBallSpeedOverTime_frame)
  show ?thesis
    unfolding u using g d
    by (simp add: saveScore_frame increaseBallSpeedOverTime_frame)
       (simp add: saveScore_def Let_def loadRecentScores_def MAX_RECENT_def
          increaseBallSpeedOverTime_frame)
qed

text \<open>
  C10. A life loss that leaves lives \<open>> 0\<close>, by ball miss or by death perk, goes
  through \<^verbatim>\<open>resetPaddleAndBall\<close>: whatever the paddle width, the ball speed and the
  level were, the paddle width is 120 and the ball speed 380 afterwards, besides the
  reset position, the zero velocity and the flags. Level and mode are unchanged.
\<close>

theorem life_loss_resets_width_and_speed:
  assumes "gameState s = GS_PLAYING
      \<and> ball_y (ball (updateGame_move dt now s)) - ball_radius (ball (updateGame_move dt now s)) \<le> 0
      \<and> u = updateGame dt now s
    \<or> perk_type p = 5 \<and> u = snd (applyPerk p s)"
    and "0 < lives s - 1"
  shows "lives u = lives s - 1 \<and> gameState u = gameState s \<and> currentLevel u = currentLevel s
     \<and> paddle_w (paddle u) = 120 \<and> ball_speed (ball u) = 380
     \<and> paddle_x (paddle u) = 340 \<and> ball_x (ball u) = 400 \<and> ball_y (ball u) = 75
     \<and> ball_vx (ball u) = 0 \<and> ball_vy (ball u) = 0
     \<and> ball_stuck (ball u) \<and> \<not> ball_isFireball (ball u)"
  using assms(1)
proof (elim disjE conjE)
  assume a: "gameState s = GS_PLAYING"
    "ball_y (ball (updateGame_move dt now s)) - ball_radius (ball (updateGame_move dt now s)) \<le> 0"
    "u = updateGame dt now s"
  show ?thesis
    unfolding a(3) updateGame_miss [OF a(1,2)] using assms(2)
    by (simp add: resetPaddleAndBall_eq updateGame_move_frame
          resetBall_def resetPaddle_def a(1))
next
  assume a: "perk_type p = 5" "u = snd (applyPerk p s)"
  show ?thesis
    unfolding a(2) applyPerk_death(1) [OF a(1)] using assms(2)
    by (simp add: resetPaddleAndBall_eq resetBall_def resetPaddle_def)
qed

theorem life_loss_resets_width_and_speed_witness:
  "gameState (missGame 3) = GS_PLAYING
   \<and> ball_y (ball (updateGame_move 0.016 1000 (missGame 3)))
        - ball_radius (ball (updateGame_move 0.016 1000 (missGame 3))) \<le> 0
   \<and> 0 < lives (missGame 3) - 1
   \<and> currentLevel (missGame 3) = 2
   \<and> paddle_w (paddle (missGame 3)) = 160 \<and> ball_speed (ball (missGame 3)) = 410
   \<and> paddle_w (paddle (updateGame 0.016 1000 (missGame 3))) = 120
   \<and> ball_speed (ball (updateGame 0.016 1000 (missGame 3))) = 380
   \<and> currentLevel (updateGame 0.016 1000 (missGame 3)) = 2
   \<and> perk_type deathPerk = 5
   \<and> paddle_w (paddle (snd (applyPerk deathPerk (missGame 3)))) = 120
   \<and> ball_speed (ball (snd (applyPerk deathPerk (missGame 3)))) = 380"
proof -
  have dp: "perk_type deathPerk = 5" by (simp add: deathPerk_def)
  have lv: "0 < lives (missGame 3) - 1" by (simp add: missGame_facts)
  note miss = life_loss_resets_width_and_speed
      [where dt = "0.016" and now = 1000 and p = deathPerk, OF disjI1,
       OF conjI [OF missGame_facts(1) conjI [OF missGame_low refl]], OF lv]
  note perk = life_loss_resets_width_and_speed
      [where dt = "0.016" and now = 1000 and p = deathPerk, OF disjI2,
       OF conjI [OF dp refl], OF lv]
  from miss perk missGame_low [of 3] show ?thesis
    by (simp add: missGame_facts dp)
qed

section \<open>The paddle and the playfield\<close>

lemma startNewGame_paddle:
  "paddle (startNewGame now s) = resetPaddle" "gameState (startNewGame now s) = GS_PLAYING"
  by (simp_all add: startNewGame_def Let_def resetPaddleAndBall_eq)

text \<open>
  The clamp of the tick (lines 346-347) puts the paddle inside the playfield, for any
  held keys and any earlier position, as long as the paddle is not wider than the window
  (its width stays within 40 and 280).
\<close>

lemma movePaddle_clamps:
  assumes "paddle_w (paddle s) \<le> real_of_int WIN_W"
  shows "0 \<le> paddle_x (paddle (movePaddle dt s))"
    and "paddle_x (paddle (movePaddle dt s)) + paddle_w (paddle (movePaddle dt s))
           \<le> real_of_int WIN_W"
  using assms by (simp_all add: movePaddle_def Let_def)

text \<open>
  A perk is applied after the clamp of the same tick: a wide-paddle perk caught by a
  paddle that touches the right edge leaves it past the edge until the next tick.
\<close>

lemma applyPerk_wide_exceeds:
  assumes "perk_type p = 1"
    and "paddle_x (paddle s) + paddle_w (paddle s) = real_of_int WIN_W"
    and "paddle_w (paddle s) < 280"
  shows "paddle_x (paddle (snd (applyPerk p s))) + paddle_w (paddle (snd (applyPerk p s)))
           > real_of_int WIN_W"
  using assms by (simp add: applyPerk_def Let_def)

text \<open>
  C7 does not hold of \<^verbatim>\<open>passiveMouse\<close>, which assigns the paddle position from the
  pointer without the clamp: in a game just started, a pointer at \<open>x = 0\<close> puts the
  paddle at \<open>- 60\<close>, where it stays until the next tick.
\<close>

theorem passiveMouse_leaves_playfield:
  "gameState (startNewGame 0 initialGame) = GS_PLAYING
   \<and> paddle_x (paddle (startNewGame 0 initialGame)) = 340
   \<and> paddle_w (paddle (startNewGame 0 initialGame)) = 120
   \<and> paddle_x (paddle (passiveMouse 0 300 (startNewGame 0 initialGame))) = - 60
   \<and> paddle_x (paddle (passiveMouse 0 300 (startNewGame 0 initialGame))) < 0"
  by (simp add: passiveMouse_def startNewGame_paddle resetPaddle_def Let_def)

section \<open>The state machine\<close>

lemma gameState_launchBall: "gameState (launchBall s) = gameState s"
  by (simp add: launchBall_def rand_def Let_def split: prod.split)

lemma keyboardDown_noop:
  assumes "\<not> specTransition (gameState s) (KeyDown k)"
    and "\<not> musicMenuChoice (gameState s) (KeyDown k)"
  shows "\<exists>s'. keyboardDown now k s = Some s' \<and> gameState s' = gameState s"
  using assms
  by (cases "gameState s")
     (auto simp: keyboardDown_def specTransition_def musicMenuChoice_def gameState_launchBall)

text \<open>
  C9, as stated, makes every pair of a mode and an event outside the list of the spec a
  no-op on the mode. The key 1 in the music menu is not in the list (the only listed
  way from MusicMenu to Menu is the cancel action), and the handler turns the music on
  and goes to the menu.
\<close>

theorem music_menu_choice_changes_mode:
  "\<not> specTransition GS_MUSIC_MENU (KeyDown (CHR ''1''))
   \<and> gameState (initialGame\<lparr>gameState := GS_MUSIC_MENU\<rparr>) = GS_MUSIC_MENU
   \<and> map_option gameState
        (handleEvent 0 (KeyDown (CHR ''1'')) (initialGame\<lparr>gameState := GS_MUSIC_MENU\<rparr>))
       = Some GS_MENU"
  by (simp add: specTransition_def keyboardDown_def playMusic_def stopMusic_def Let_def)

text \<open>
  C9, amended. For every mode and every input event (key press and release, special
  key, click, pointer motion) whose pair is neither a transition listed by the spec nor
  one of the two selections of the music menu, the handler returns (the process goes
  on) and the mode is unchanged.
\<close>

theorem unlisted_event_keeps_mode:
  assumes "\<not> specTransition (gameState s) e" and "\<not> musicMenuChoice (gameState s) e"
  shows "\<exists>s'. handleEvent now e s = Some s' \<and> gameState s' = gameState s"
proof (cases e)
  case (KeyDown k)
  with assms keyboardDown_noop [of s k now] show ?thesis by simp
next
  case (KeyUp k)
  then show ?thesis by (simp add: keyboardUp_def Let_def)
next
  case (SpecialDown k)
  then show ?thesis by (simp add: specialDown_def Let_def)
next
  case (SpecialUp k)
  then show ?thesis by (simp add: specialUp_def Let_def)
next
  case (MouseClick b st x y)
  then show ?thesis by (simp add: mouseClick_def Let_def)
next
  case (MouseMove x y)
  then show ?thesis by (simp add: passiveMouse_def Let_def)
qed

theorem unlisted_event_keeps_mode_witness:
  "\<not> specTransition (gameState (initialGame\<lparr>gameState := GS_HELP\<rparr>)) (KeyDown (CHR ''p''))
   \<and> \<not> musicMenuChoice (gameState (initialGame\<lparr>gameState := GS_HELP\<rparr>)) (KeyDown (CHR ''p''))
   \<and> map_option gameState
        (handleEvent 0 (KeyDown (CHR ''p'')) (initialGame\<lparr>gameState := GS_HELP\<rparr>))
       = Some GS_HELP"
proof -
  have a: "\<not> specTransition (gameState (initialGame\<lparr>gameState := GS_HELP\<rparr>))
             (KeyDown (CHR ''p''))"
    and b: "\<not> musicMenuChoice (gameState (initialGame\<lparr>gameState := GS_HELP\<rparr>))
             (KeyDown (CHR ''p''))"
    by (simp_all add: specTransition_def musicMenuChoice_def)
  from unlisted_event_keeps_mode [OF a b, of 0] a b show ?thesis by auto
qed

section \<open>The velocity magnitude\<close>
































end
